theory Spec2Isabelle
  imports Complex_Main "HOL-Library.Sublist" "HOL-Library.Word"
begin

section \<open>Python strings\<close>

text \<open>
  A Python \<open>str\<close> is a sequence of Unicode code points, and \<open>len\<close> counts code
  points. The conversion script names code points beyond Latin-1 (the bullet U+2022),
  so a string is modelled as a list of code points, not of 8-bit characters.
  \<open>of_ascii\<close> reads an ASCII literal as such a list.
\<close>

type_synonym ustring = "nat list"

type_synonym bytes = "8 word list"

definition of_ascii :: "string \<Rightarrow> ustring" where
  "of_ascii s = map of_char s"

text \<open>
  \<open>str.isspace\<close> for one code point, which is also what \<open>str.strip()\<close> removes and
  what \<open>\s\<close> matches in a \<open>str\<close> pattern: U+0009..U+000D, U+001C..U+0020, U+0085,
  U+00A0, U+1680, U+2000..U+200A, U+2028, U+2029, U+202F, U+205F, U+3000.
\<close>

definition isspace :: "nat \<Rightarrow> bool" where
  "isspace c \<longleftrightarrow>
     (0x09 \<le> c \<and> c \<le> 0x0D) \<or> (0x1C \<le> c \<and> c \<le> 0x20) \<or> c = 0x85 \<or> c = 0xA0 \<or>
     c = 0x1680 \<or> (0x2000 \<le> c \<and> c \<le> 0x200A) \<or> c = 0x2028 \<or> c = 0x2029 \<or>
     c = 0x202F \<or> c = 0x205F \<or> c = 0x3000"

definition lstrip :: "ustring \<Rightarrow> ustring" where
  "lstrip s = dropWhile isspace s"

definition rstrip :: "ustring \<Rightarrow> ustring" where
  "rstrip s = rev (dropWhile isspace (rev s))"

definition strip :: "ustring \<Rightarrow> ustring" where
  "strip s = rstrip (lstrip s)"

text \<open>The character class \<open>[a-zA-Z0-9]\<close> of \<open>re.findall(r'[a-zA-Z0-9]', line)\<close>.\<close>

definition re_alnum :: "nat \<Rightarrow> bool" where
  "re_alnum c \<longleftrightarrow>
     (0x61 \<le> c \<and> c \<le> 0x7A) \<or> (0x41 \<le> c \<and> c \<le> 0x5A) \<or> (0x30 \<le> c \<and> c \<le> 0x39)"

text \<open>
  \<open>s.split(sep)\<close> for a separator of one code point: the pieces between the
  separators, empty pieces included, so that the empty string splits into \<open>['']\<close>.
\<close>

fun split_char :: "nat \<Rightarrow> ustring \<Rightarrow> ustring list" where
  "split_char sep [] = [[]]"
| "split_char sep (c # cs) =
     (if c = sep then [] # split_char sep cs
      else (case split_char sep cs of
              [] \<Rightarrow> [[c]]
            | piece # pieces \<Rightarrow> (c # piece) # pieces))"

text \<open>\<open>sep.join(pieces)\<close>.\<close>

fun join :: "ustring \<Rightarrow> ustring list \<Rightarrow> ustring" where
  "join sep [] = []"
| "join sep [piece] = piece"
| "join sep (piece # pieces) = piece @ sep @ join sep pieces"

definition startswith :: "ustring \<Rightarrow> ustring \<Rightarrow> bool" where
  "startswith s p \<longleftrightarrow> take (length p) s = p"

definition endswith :: "ustring \<Rightarrow> ustring \<Rightarrow> bool" where
  "endswith s p \<longleftrightarrow> length p \<le> length s \<and> drop (length s - length p) s = p"

text \<open>Decimal digits of a natural number, as \<open>str(n)\<close> prints them.\<close>

fun str_nat :: "nat \<Rightarrow> ustring" where
  "str_nat n = (if n < 10 then [0x30 + n] else str_nat (n div 10) @ [0x30 + n mod 10])"

declare str_nat.simps [simp del]

section \<open>Exceptions\<close>

text \<open>
  The exception classes the handlers of \<open>backend/main.py\<close> tell apart. Every value is
  an instance of \<open>Exception\<close>: \<open>HTTPException status detail\<close> is FastAPI's,
  \<open>JSONDecodeError msg\<close> is \<open>json.JSONDecodeError\<close> (or a subclass), and
  \<open>OtherError msg\<close> is any other subclass of \<open>Exception\<close>; \<open>msg\<close> is the text
  \<open>str(e)\<close> returns. An \<open>HTTPException\<close> that leaves the endpoint is the HTTP
  response with that status code and detail.
\<close>

datatype exn =
    HTTPException nat ustring
  | JSONDecodeError ustring
  | OtherError ustring

text \<open>\<open>str(e)\<close>; for an \<open>HTTPException\<close> Starlette prints \<open>status: detail\<close>.\<close>

fun str_exn :: "exn \<Rightarrow> ustring" where
  "str_exn (HTTPException status detail) = str_nat status @ of_ascii '': '' @ detail"
| "str_exn (JSONDecodeError msg) = msg"
| "str_exn (OtherError msg) = msg"

section \<open>PDF text extractor\<close>

text \<open>
  \<open>pypdf\<close> is outside the repository. A page is what \<open>page.extract_text()\<close> does
  on it: it raises, or returns a string or \<open>None\<close>. \<open>PdfReader\<close>, a parameter of
  the extractor, raises on bytes it cannot read, or gives the pages in document order.
\<close>

type_synonym page = "exn + ustring option"

text \<open>
  The inner loop over the lines of one page (lines 57 to 68). The quotient is a Python
  float; both operands are line lengths, the division is correctly rounded and so is the
  literal \<open>0.3\<close>, hence the comparison \<open>ratio > 0.3\<close> agrees with the comparison of
  the exact quotient with 3/10 for every line shorter than \<open>2^50\<close> code points. The
  model computes with the exact quotient.
\<close>

fun clean_lines_loop :: "ustring list \<Rightarrow> ustring list \<Rightarrow> ustring list" where
  "clean_lines_loop [] cleaned_lines = cleaned_lines"
| "clean_lines_loop (line # lines) cleaned_lines =
     (let clean_chars = length (filter re_alnum line);
          total_chars = length (strip line)
      in if total_chars > 0 then
           (let ratio = real clean_chars / real total_chars
            in if ratio > 3 / 10 \<or> total_chars < 5
               then clean_lines_loop lines (cleaned_lines @ [line])
               else clean_lines_loop lines cleaned_lines)
         else clean_lines_loop lines cleaned_lines)"

text \<open>The loop over the pages (lines 51 to 70), with the accumulator \<open>text\<close>.\<close>

fun pages_loop :: "page list \<Rightarrow> ustring \<Rightarrow> exn + ustring" where
  "pages_loop [] text = Inr text"
| "pages_loop (page # pages) text =
     (case page of
        Inl e \<Rightarrow> Inl e
      | Inr None \<Rightarrow> pages_loop pages text
      | Inr (Some page_text) \<Rightarrow>
          if page_text \<noteq> [] then
            (let lines = split_char 0x0A page_text;
                 cleaned_lines = clean_lines_loop lines []
             in pages_loop pages (text @ join [0x0A] cleaned_lines @ [0x0A]))
          else pages_loop pages text)"

definition extract_text_from_pdf :: "(bytes \<Rightarrow> exn + page list) \<Rightarrow> bytes \<Rightarrow> exn + ustring" where
  "extract_text_from_pdf PdfReader pdf_file =
     (case (case PdfReader pdf_file of
              Inl e \<Rightarrow> Inl e
            | Inr pages \<Rightarrow> pages_loop pages [])
      of Inl e \<Rightarrow> Inl (HTTPException 400 (of_ascii ''Error reading PDF: '' @ str_exn e))
       | Inr text \<Rightarrow> Inr text)"

section \<open>Prompt builder\<close>

text \<open>
  The prompt is the f-string of lines 99 to 161. Its fixed text is cut at the four
  holes; \<open>text_lines\<close> writes a block of complete lines, each ended by a newline.
  The text after the last hole is further cut into the output format, the annotation
  instructions and the critique guidelines.
\<close>

definition text_lines :: "string list \<Rightarrow> ustring" where
  "text_lines ls = concat (map (\<lambda>l. of_ascii l @ [0x0A]) ls)"

definition prompt_goal :: ustring where
  \<open>prompt_goal =
   text_lines
    ['''',
     ''    Analyze the following resume text against the provided Job Description. '',
     ''    '',
     ''    **Goal:** Provide a comprehensive, structured review similar to professional resume audit platforms.'',
     '''',
     ''    **General Industry Job Context (JSON):**''] @
   of_ascii ''    ''\<close>

definition prompt_job_heading :: ustring where
  \<open>prompt_job_heading =
   text_lines
    ['''',
     '''',
     ''    **Specific Job Description:**''] @
   of_ascii ''    Company: ''\<close>

definition prompt_description_heading :: ustring where
  \<open>prompt_description_heading =
   text_lines
    ['''',
     ''    Description:''] @
   of_ascii ''    ''\<close>

definition prompt_resume_heading :: ustring where
  \<open>prompt_resume_heading =
   text_lines
    ['''',
     '''',
     ''    **Resume Text for Analysis:**''] @
   of_ascii ''    ''\<close>

definition prompt_output_format :: ustring where
  \<open>prompt_output_format =
   text_lines
    ['''',
     '''',
     ''    ---'',
     '''',
     ''    **Output Format:**'',
     ''    Return a **strictly valid JSON object** with the following structure:'',
     ''    {'',
     ''        "match_score": 85,'',
     ''        "sub_scores": {'',
     ''            "structure": {"score": 15, "max": 20},'',
     ''            "content": {"score": 45, "max": 60},'',
     ''            "tailoring": {"level": "High", "feedback": "Well matched to keywords"}'',
     ''        },'',
     ''        "checklist": ['',
     ''            {'',
     ''                "category": "Resume Format",'',
     ''                "items": ['',
     ''                    {"name": "Length", "status": "pass", "score": "+10 pts", "detail": "1 page, perfect length."},'',
     ''                    {"name": "Formatting", "status": "fail", "score": "-5 pts", "detail": "Inconsistent font sizes."}'',
     ''                ]'',
     ''            },'',
     ''            {'',
     ''                "category": "Essential Sections",'',
     ''                "items": ['',
     ''                    {"name": "Summary", "status": "warn", "score": "-5 pts", "detail": "Present but generic."},'',
     ''                    {"name": "Experience", "status": "pass", "score": "+10 pts", "detail": "Good use of action verbs."}'',
     ''                ]'',
     ''            }'',
     ''        ],'',
     ''        "annotated_resume": "The full text of the resume with the annotations described below..."'',
     ''    }'',
     '''']\<close>

definition prompt_annotation_instructions :: ustring where
  \<open>prompt_annotation_instructions =
   text_lines
    [''    **Annotation Instructions (Use these EXACT markers in 'annotated_resume'):**'',
     ''    1.  **Improvements (Orange):** Wrap text that needs quantification or better wording in `<<<` and `>>>`.'',
     ''    2.  **Removals (Red):** Wrap text that should be deleted in `~~~` and `~~~`.'',
     ''    3.  **Additions (Green):** Insert new suggested text wrapped in `+++` and `+++`.'',
     '''']\<close>

definition prompt_critique_guidelines :: ustring where
  \<open>prompt_critique_guidelines =
   text_lines
    [''    **Critique Guidelines:**'',
     ''    *   **Structure:** Check length, readability, and section organization.'',
     ''    *   **Content:** Check for quantification, action verbs, and clarity.'',
     ''    *   **Tailoring:** Check for JD keywords and specific skills.'',
     ''    *   **Annotated Resume:** Rewrite the resume text. **Use Markdown for formatting:**'',
     ''        - Use `### ` for Section Headers (e.g. ### Experience).'',
     ''        - Use `**` for bolding key terms (e.g. **Candidate Name**).'',
     ''        - Use `- ` for bullet points.'',
     ''        - **Crucial:** Keep the annotation markers (`<<<`, `~~~`, `+++`) as defined previously.'',
     '''',
     ''    **Important:** Do not use markdown formatting for the JSON (no ```json). Just return the raw JSON string.''] @
   of_ascii ''    ''\<close>

definition prompt_instructions :: ustring where
  "prompt_instructions =
     prompt_output_format @ prompt_annotation_instructions @ prompt_critique_guidelines"

text \<open>
  \<open>json.dumps\<close> is library code and is a parameter. \<open>JOBS_CONTEXT[:50]\<close> is the
  first 50 entries; \<open>company_name if company_name else "Not Specified"\<close> takes the
  placeholder for \<open>None\<close> and for the empty string.
\<close>

definition build_prompt ::
  "('j list \<Rightarrow> ustring) \<Rightarrow> 'j list \<Rightarrow> ustring option \<Rightarrow> ustring \<Rightarrow> ustring \<Rightarrow> ustring" where
  "build_prompt dumps context company_name job_description resume_text =
     (let general_context_str = dumps (take 50 context)
      in prompt_goal @ general_context_str @
         prompt_job_heading @
         (case company_name of
            None \<Rightarrow> of_ascii ''Not Specified''
          | Some name \<Rightarrow> if name \<noteq> [] then name else of_ascii ''Not Specified'') @
         prompt_description_heading @ job_description @
         prompt_resume_heading @ resume_text @
         prompt_instructions)"

section \<open>Response normalizer\<close>

text \<open>
  Lines 170 to 178: the text handed to \<open>json.loads\<close>. The slice \<open>[:-3]\<close> is taken
  only when the text ends with the fence, so it has at least three code points.
\<close>

definition clean_response_text :: "ustring \<Rightarrow> ustring" where
  "clean_response_text text =
     (let response_text = strip text;
          response_text = (if startswith response_text (of_ascii ''```json'')
                           then drop 7 response_text else response_text);
          response_text = (if startswith response_text (of_ascii ''```'')
                           then drop 3 response_text else response_text);
          response_text = (if endswith response_text (of_ascii ''```'')
                           then take (length response_text - 3) response_text
                           else response_text)
      in strip response_text)"

section \<open>The endpoint\<close>

text \<open>
  What the handler of \<open>POST /analyze-resume\<close> reads from its surroundings: the PDF
  library, the job context loaded at start-up, \<open>json.dumps\<close>, the call
  \<open>client.models.generate_content(model="gemini-2.5-flash", contents=prompt)\<close> with
  the \<open>text\<close> attribute of its response (a string or \<open>None\<close>), and \<open>json.loads\<close>.
  Each of them returns or raises.
\<close>

record 'j env =
  PdfReader :: "bytes \<Rightarrow> exn + page list"
  JOBS_CONTEXT :: "'j list"
  json_dumps :: "'j list \<Rightarrow> ustring"
  generate_content :: "ustring \<Rightarrow> exn + ustring option"
  json_loads :: "ustring \<Rightarrow> exn + 'j"

text \<open>
  The form fields of a request; \<open>resume_pdf_read\<close> is what
  \<open>await resume_pdf.read()\<close> does.
\<close>

record request =
  company_name :: "ustring option"
  job_description :: ustring
  resume_pdf_content_type :: "ustring option"
  resume_pdf_read :: "exn + bytes"

text \<open>
  The calls the handler makes to its surroundings, in the order it makes them. The
  handler returns this log beside its result: \<open>Inl (HTTPException status detail)\<close> is
  the error response, \<open>Inr v\<close> the response 200 with the parsed value \<open>v\<close>.
\<close>

datatype call = UploadRead | PdfParse bytes | ModelCall ustring | JsonParse ustring

text \<open>The body of the first \<open>try\<close> (lines 90 and 91).\<close>

definition read_and_extract :: "'j env \<Rightarrow> request \<Rightarrow> call list \<times> (exn + ustring)" where
  "read_and_extract env req =
     (case resume_pdf_read req of
        Inl e \<Rightarrow> ([UploadRead], Inl e)
      | Inr pdf_content \<Rightarrow>
          ([UploadRead, PdfParse pdf_content],
           extract_text_from_pdf (PdfReader env) pdf_content))"

text \<open>
  The body of the second \<open>try\<close> (lines 165 to 178). \<open>response.text.strip()\<close> on
  \<open>None\<close> raises an \<open>AttributeError\<close>.
\<close>

definition call_and_parse :: "'j env \<Rightarrow> ustring \<Rightarrow> call list \<times> (exn + 'j)" where
  "call_and_parse env prompt =
     (case generate_content env prompt of
        Inl e \<Rightarrow> ([ModelCall prompt], Inl e)
      | Inr None \<Rightarrow>
          ([ModelCall prompt],
           Inl (OtherError ([0x27] @ of_ascii ''NoneType'' @ [0x27] @
                  of_ascii '' object has no attribute '' @ [0x27] @ of_ascii ''strip'' @ [0x27])))
      | Inr (Some text) \<Rightarrow>
          (let response_text = clean_response_text text
           in ([ModelCall prompt, JsonParse response_text], json_loads env response_text)))"

definition analyze_resume :: "'j env \<Rightarrow> request \<Rightarrow> call list \<times> (exn + 'j)" where
  "analyze_resume env req =
     (if resume_pdf_content_type req \<noteq> Some (of_ascii ''application/pdf'') then
        ([], Inl (HTTPException 400 (of_ascii
           ''Invalid file type. Only PDF files (application/pdf) are supported. DOC/DOCX files are not supported.'')))
      else
        (case read_and_extract env req of
           (calls, Inl e) \<Rightarrow>
             (calls, Inl (HTTPException 500 (of_ascii ''Failed to process PDF: '' @ str_exn e)))
         | (calls, Inr resume_text) \<Rightarrow>
             (let prompt = build_prompt (json_dumps env) (JOBS_CONTEXT env)
                             (company_name req) (job_description req) resume_text
              in (case call_and_parse env prompt of
                    (calls', Inl (JSONDecodeError msg)) \<Rightarrow>
                      (calls @ calls',
                       Inl (HTTPException 500 (of_ascii ''AI returned invalid JSON format.'')))
                  | (calls', Inl e) \<Rightarrow>
                      (calls @ calls',
                       Inl (HTTPException 503 (of_ascii ''AI Service Unavailable: '' @ str_exn e)))
                  | (calls', Inr parsed) \<Rightarrow> (calls @ calls', Inr parsed)))))"

section \<open>The conversion script\<close>

text \<open>
  \<open>re.split(r'[\n\r...]+', description)\<close> with the character class as a predicate: the
  pieces between maximal runs of delimiters, so a delimiter at either end of the string
  gives an empty first or last piece.
\<close>

function re_split :: "(nat \<Rightarrow> bool) \<Rightarrow> ustring \<Rightarrow> ustring list" where
  "re_split delim [] = [[]]"
| "re_split delim (c # cs) =
     (if delim c then [] # re_split delim (dropWhile delim cs)
      else (case re_split delim cs of
              [] \<Rightarrow> [[c]]
            | piece # pieces \<Rightarrow> (c # piece) # pieces))"
  by pat_completeness auto
termination
  by (relation "measure (\<lambda>(delim, s). length s)")
     (auto simp: length_dropWhile_le less_Suc_eq_le)

text \<open>The class of line 19: newline, carriage return, U+2022 (bullet), U+00B7 (middle dot).\<close>

definition re_delimiter :: "nat \<Rightarrow> bool" where
  "re_delimiter c \<longleftrightarrow> c = 0x0A \<or> c = 0x0D \<or> c = 0x2022 \<or> c = 0xB7"

text \<open>The class of line 27: hyphen, asterisk, U+27A2 and U+27A3 (arrowheads).\<close>

definition re_bullet :: "nat \<Rightarrow> bool" where
  "re_bullet c \<longleftrightarrow> c = 0x2D \<or> c = 0x2A \<or> c = 0x27A2 \<or> c = 0x27A3"

text \<open>
  \<open>re.sub(r'^[-*..]\s*', '', clean_line)\<close>: one leading character of the class and
  the whitespace after it are removed.
\<close>

fun remove_bullet :: "ustring \<Rightarrow> ustring" where
  "remove_bullet [] = []"
| "remove_bullet (c # cs) = (if re_bullet c then dropWhile isspace cs else c # cs)"

text \<open>The loop of lines 22 to 28, with the accumulator \<open>skills\<close>.\<close>

fun skills_loop :: "ustring list \<Rightarrow> ustring list \<Rightarrow> ustring list" where
  "skills_loop [] skills = skills"
| "skills_loop (line # lines) skills =
     (let clean_line = strip line
      in if length clean_line > 3 then
           (let clean_line = remove_bullet clean_line
            in skills_loop lines (skills @ [clean_line]))
         else skills_loop lines skills)"

definition extract_skills_heuristic :: "ustring \<Rightarrow> ustring" where
  "extract_skills_heuristic description =
     (if description = [] then of_ascii ''N/A''
      else (let lines = re_split re_delimiter description;
                skills = skills_loop lines []
            in join (of_ascii '', '') (take 10 skills)))"

section \<open>Notions of the specification\<close>

text \<open>
  The retention rule in the specification's words: a line is retained if and only if
  the ratio of its alphanumeric characters to its trimmed length exceeds 0.3 or its
  trimmed length is under 5.
\<close>

definition spec_retains :: "ustring \<Rightarrow> bool" where
  "spec_retains line \<longleftrightarrow>
     real (length (filter re_alnum line)) / real (length (strip line)) > 3 / 10 \<or>
     length (strip line) < 5"


text \<open>A model output wrapped in a json code fence.\<close>

definition fenced :: "ustring \<Rightarrow> ustring" where
  "fenced s = of_ascii ''```json'' @ s @ of_ascii ''```''"

text \<open>
  Syntactically valid JSON, by the grammar of RFC 8259: a text is a value between
  optional whitespace; a value is \<open>null\<close>, \<open>true\<close>, \<open>false\<close>, a number, a string,
  an array of values or an object of members.
\<close>

definition json_ws :: "nat \<Rightarrow> bool" where
  "json_ws c \<longleftrightarrow> c = 0x20 \<or> c = 0x09 \<or> c = 0x0A \<or> c = 0x0D"

definition json_digit :: "nat \<Rightarrow> bool" where
  "json_digit c \<longleftrightarrow> 0x30 \<le> c \<and> c \<le> 0x39"

definition json_hex :: "nat \<Rightarrow> bool" where
  "json_hex c \<longleftrightarrow> json_digit c \<or> (0x41 \<le> c \<and> c \<le> 0x46) \<or> (0x61 \<le> c \<and> c \<le> 0x66)"

definition json_digits :: "ustring \<Rightarrow> bool" where
  "json_digits s \<longleftrightarrow> s \<noteq> [] \<and> list_all json_digit s"

inductive json_number :: "ustring \<Rightarrow> bool" where
  "\<lbrakk>neg = [] \<or> neg = [0x2D];
    whole = [0x30] \<or> (json_digits whole \<and> hd whole \<noteq> 0x30);
    fraction = [] \<or> (\<exists>ds. fraction = 0x2E # ds \<and> json_digits ds);
    exponent = [] \<or> (\<exists>e sg ds. exponent = e # sg @ ds \<and> (e = 0x65 \<or> e = 0x45) \<and>
                   (sg = [] \<or> sg = [0x2B] \<or> sg = [0x2D]) \<and> json_digits ds)\<rbrakk>
   \<Longrightarrow> json_number (neg @ whole @ fraction @ exponent)"

inductive json_chars :: "ustring \<Rightarrow> bool" where
  "json_chars []"
| "\<lbrakk>0x20 \<le> c; c \<noteq> 0x22; c \<noteq> 0x5C; json_chars cs\<rbrakk> \<Longrightarrow> json_chars (c # cs)"
| "\<lbrakk>e \<in> {0x22, 0x5C, 0x2F, 0x62, 0x66, 0x6E, 0x72, 0x74}; json_chars cs\<rbrakk>
   \<Longrightarrow> json_chars (0x5C # e # cs)"
| "\<lbrakk>json_hex h1; json_hex h2; json_hex h3; json_hex h4; json_chars cs\<rbrakk>
   \<Longrightarrow> json_chars (0x5C # 0x75 # h1 # h2 # h3 # h4 # cs)"

definition json_string :: "ustring \<Rightarrow> bool" where
  "json_string s \<longleftrightarrow> (\<exists>cs. s = 0x22 # cs @ [0x22] \<and> json_chars cs)"

inductive json_value :: "ustring \<Rightarrow> bool"
  and json_elements :: "ustring \<Rightarrow> bool"
  and json_members :: "ustring \<Rightarrow> bool" where
  "json_value (of_ascii ''null'')"
| "json_value (of_ascii ''true'')"
| "json_value (of_ascii ''false'')"
| "json_number s \<Longrightarrow> json_value s"
| "json_string s \<Longrightarrow> json_value s"
| "list_all json_ws w \<Longrightarrow> json_value (0x5B # w @ [0x5D])"
| "json_elements es \<Longrightarrow> json_value (0x5B # es @ [0x5D])"
| "list_all json_ws w \<Longrightarrow> json_value (0x7B # w @ [0x7D])"
| "json_members ms \<Longrightarrow> json_value (0x7B # ms @ [0x7D])"
| "\<lbrakk>list_all json_ws w1; json_value v; list_all json_ws w2\<rbrakk>
   \<Longrightarrow> json_elements (w1 @ v @ w2)"
| "\<lbrakk>list_all json_ws w1; json_value v; list_all json_ws w2; json_elements es\<rbrakk>
   \<Longrightarrow> json_elements (w1 @ v @ w2 @ 0x2C # es)"
| "\<lbrakk>list_all json_ws w1; json_string k; list_all json_ws w2;
    list_all json_ws w3; json_value v; list_all json_ws w4\<rbrakk>
   \<Longrightarrow> json_members (w1 @ k @ w2 @ 0x3A # w3 @ v @ w4)"
| "\<lbrakk>list_all json_ws w1; json_string k; list_all json_ws w2;
    list_all json_ws w3; json_value v; list_all json_ws w4; json_members ms\<rbrakk>
   \<Longrightarrow> json_members (w1 @ k @ w2 @ 0x3A # w3 @ v @ w4 @ 0x2C # ms)"

definition json_text :: "ustring \<Rightarrow> bool" where
  "json_text s \<longleftrightarrow>
     (\<exists>w1 v w2. s = w1 @ v @ w2 \<and> list_all json_ws w1 \<and> json_value v \<and> list_all json_ws w2)"

section \<open>Sample surroundings\<close>

text \<open>
  Stand-ins for the services outside the repository, to run the handler on concrete
  requests: a PDF reader that gives fixed pages or raises, a model that replies a fixed
  text or raises, \<open>json.dumps\<close> on the empty job context, and a parser that knows the
  empty object only (it agrees with \<open>json.loads\<close> on every text the samples hand to it).
\<close>

datatype json = JNull | JBool bool | JInt int | JStr ustring | JList "json list"
  | JDict "(ustring \<times> json) list"

definition reader_giving :: "page list \<Rightarrow> bytes \<Rightarrow> exn + page list" where
  "reader_giving pages pdf_file = Inr pages"

definition reader_raising :: "exn \<Rightarrow> bytes \<Rightarrow> exn + page list" where
  "reader_raising e pdf_file = Inl e"

definition model_replying :: "ustring \<Rightarrow> ustring \<Rightarrow> exn + ustring option" where
  "model_replying text prompt = Inr (Some text)"

definition model_raising :: "exn \<Rightarrow> ustring \<Rightarrow> exn + ustring option" where
  "model_raising e prompt = Inl e"

definition dumps_empty :: "json list \<Rightarrow> ustring" where
  "dumps_empty entries = of_ascii ''[]''"

definition loads_empty_object :: "ustring \<Rightarrow> exn + json" where
  "loads_empty_object s =
     (if s = of_ascii ''{}'' then Inr (JDict [])
      else Inl (JSONDecodeError (of_ascii ''Expecting value: line 1 column 1 (char 0)'')))"

definition sample_env ::
  "(bytes \<Rightarrow> exn + page list) \<Rightarrow> (ustring \<Rightarrow> exn + ustring option) \<Rightarrow> json env" where
  "sample_env reader model =
     \<lparr>PdfReader = reader, JOBS_CONTEXT = [], json_dumps = dumps_empty,
      generate_content = model, json_loads = loads_empty_object\<rparr>"

definition sample_resume :: ustring where
  "sample_resume = of_ascii ''John Doe\<newline>Software Engineer\<newline>5 years experience in Python''"

definition sample_job :: ustring where
  "sample_job = of_ascii ''Looking for a backend engineer with Python and API experience''"

definition sample_request :: "ustring \<Rightarrow> request" where
  "sample_request declared_type =
     \<lparr>company_name = Some (of_ascii ''Acme Corp''), job_description = sample_job,
      resume_pdf_content_type = Some declared_type,
      resume_pdf_read = Inr [0x25, 0x50, 0x44, 0x46]\<rparr>"



section \<open>Strings: facts\<close>

lemma fence_codes:
  "of_ascii ''```'' = [96, 96, 96]"
  "of_ascii ''```json'' = [96, 96, 96, 106, 115, 111, 110]"
  by (simp_all add: of_ascii_def)

lemma backtick_not_space: "\<not> isspace 96"
  by (simp add: isspace_def)

lemma startswith_prefix: "startswith s p \<longleftrightarrow> prefix p s"
  unfolding startswith_def
  by (metis append_eq_conv_conj prefix_def)

lemma endswith_suffix: "endswith s p \<longleftrightarrow> suffix p s"
proof
  assume "endswith s p"
  then have "drop (length s - length p) s = p" by (simp add: endswith_def)
  then show "suffix p s" by (metis suffix_drop)
next
  assume "suffix p s"
  then obtain q where "s = q @ p" by (auto simp: suffix_def)
  then show "endswith s p" by (simp add: endswith_def)
qed

lemma strip_Nil: "strip [] = []"
  by (simp add: strip_def lstrip_def rstrip_def)

lemma strip_keeps:
  assumes "s \<noteq> []" "\<not> isspace (hd s)" "\<not> isspace (last s)"
  shows "strip s = s"
proof -
  from assms have "lstrip s = s"
    by (simp add: lstrip_def dropWhile_eq_self_iff)
  moreover from assms have "dropWhile isspace (rev s) = rev s"
    by (simp add: dropWhile_eq_self_iff hd_rev)
  then have "rstrip s = s"
    by (simp add: rstrip_def)
  ultimately show ?thesis by (simp add: strip_def)
qed

lemma rstrip_prefix: "prefix (rstrip s) s"
  unfolding rstrip_def
  by (metis rev_rev_ident suffix_dropWhile suffix_to_prefix)

lemma strip_ends:
  assumes "strip s \<noteq> []"
  shows "\<not> isspace (hd (strip s))" and "\<not> isspace (last (strip s))"
proof -
  let ?t = "lstrip s"
  from assms have t: "?t \<noteq> []"
    by (auto simp: strip_def rstrip_def)
  then have "\<not> isspace (hd ?t)"
    unfolding lstrip_def by (rule hd_dropWhile)
  moreover obtain zs where "?t = strip s @ zs"
    using rstrip_prefix [of ?t] by (auto simp: strip_def prefix_def)
  then have "hd ?t = hd (strip s)"
    using assms by (metis hd_append2)
  ultimately show "\<not> isspace (hd (strip s))" by simp
  from assms have "dropWhile isspace (rev ?t) \<noteq> []"
    by (simp add: strip_def rstrip_def)
  then have "\<not> isspace (hd (dropWhile isspace (rev ?t)))"
    by (rule hd_dropWhile)
  then show "\<not> isspace (last (strip s))"
    using assms by (simp add: strip_def rstrip_def last_rev)
qed

lemma strip_strip: "strip (strip s) = strip s"
proof (cases "strip s = []")
  case True
  then show ?thesis by (simp add: strip_Nil)
next
  case False
  then show ?thesis by (simp add: strip_keeps strip_ends)
qed

lemma strip_keeps_fence_prefix:
  assumes "prefix [96, 96, 96] s"
  shows "prefix [96, 96, 96] (strip s)"
proof -
  from assms obtain r where s: "s = [96, 96, 96] @ r"
    by (auto simp: prefix_def)
  then have l: "lstrip s = s"
    by (simp add: lstrip_def backtick_not_space)
  have "dropWhile isspace (rev r @ [96, 96, 96]) =
          (if \<forall>c\<in>set (rev r). isspace c then [96, 96, 96]
           else dropWhile isspace (rev r) @ [96, 96, 96])"
    by (simp add: dropWhile_append backtick_not_space)
  then have "rstrip s = [96, 96, 96] \<or> rstrip s = [96, 96, 96] @ rev (dropWhile isspace (rev r))"
    unfolding s rstrip_def by (simp split: if_splits)
  with l show ?thesis
    by (auto simp: strip_def)
qed

section \<open>PDF text extractor: the retention rule\<close>

lemma clean_lines_loop_acc:
  "clean_lines_loop lines acc = acc @
     filter (\<lambda>line. 0 < length (strip line) \<and>
        (3 / 10 < real (length (filter re_alnum line)) / real (length (strip line)) \<or>
         length (strip line) < 5)) lines"
  by (induction lines arbitrary: acc) (simp_all add: Let_def)

text \<open>
  C2, as amended. The lines the extractor retains from a page are, in their order,
  exactly the lines whose trimmed length is positive and whose ratio of alphanumeric
  characters (the class \<open>[a-zA-Z0-9]\<close>) to trimmed length exceeds 0.3 or whose
  trimmed length is under 5. A line of trimmed length 0 (an empty line, or one of
  whitespace only) is dropped: the guard \<open>total_chars > 0\<close> of line 63 comes before
  the rule.
\<close>

theorem clean_lines_retained:
  "clean_lines_loop lines [] =
     filter (\<lambda>line. 0 < length (strip line) \<and>
        (3 / 10 < real (length (filter re_alnum line)) / real (length (strip line)) \<or>
         length (strip line) < 5)) lines"
  by (simp add: clean_lines_loop_acc)

text \<open>
  The rule as the specification words it would retain the empty line and the line of two
  spaces (trimmed length 0, which is under 5); the loop drops them, and a page
  \<open>"ab\n  \ncd"\<close> is extracted as \<open>"ab\ncd\n"\<close>.
\<close>

theorem retained_counterexample:
  "spec_retains [] \<and> clean_lines_loop [[]] [] \<noteq> filter spec_retains [[]] \<and>
   spec_retains [0x20, 0x20] \<and>
   pages_loop [Inr (Some (of_ascii ''ab\<newline>  \<newline>cd''))] [] = Inr (of_ascii ''ab\<newline>cd\<newline>'')"
  by (simp add: spec_retains_def of_ascii_def strip_def lstrip_def rstrip_def isspace_def
      re_alnum_def)

section \<open>PDF text extractor: pages\<close>


lemma pages_loop_empty:
  "\<forall>p\<in>set pages. p = Inr None \<or> p = Inr (Some []) \<Longrightarrow> pages_loop pages acc = Inr acc"
  by (induction pages) auto



text \<open>
  C8. When the reader opens the file and every page yields no text (\<open>extract_text\<close>
  returns \<open>None\<close> or the empty string), the extractor returns the empty string and
  raises nothing.
\<close>

theorem extract_empty_pages:
  assumes "reader pdf_file = Inr pages"
    and "\<forall>p\<in>set pages. p = Inr None \<or> p = Inr (Some [])"
  shows "extract_text_from_pdf reader pdf_file = Inr []"
  using assms by (simp add: extract_text_from_pdf_def pages_loop_empty)

theorem extract_empty_pages_witness:
  "extract_text_from_pdf (reader_giving [Inr None, Inr (Some []), Inr None]) [0x25, 0x50] = Inr []"
  by (rule extract_empty_pages [where pages = "[Inr None, Inr (Some []), Inr None]"])
     (simp_all add: reader_giving_def)



section \<open>Evaluation on concrete inputs\<close>

lemmas string_eval = of_ascii_def strip_def lstrip_def rstrip_def isspace_def re_alnum_def
  startswith_def endswith_def

lemmas sample_eval = sample_env_def sample_request_def reader_giving_def reader_raising_def
  model_replying_def model_raising_def loads_empty_object_def dumps_empty_def


section \<open>Response normalizer: code fences\<close>

text \<open>
  C4, as amended. For every model output \<open>s\<close> whose trimmed form neither starts nor
  ends with the marker \<open>```\<close>, cleaning \<open>s\<close> wrapped in a json code fence and
  cleaning \<open>s\<close> alone hand the same text to the parser, namely the trimmed \<open>s\<close>, so
  the parsed result is the same.
\<close>

theorem fence_normalized:
  assumes "\<not> startswith (strip s) (of_ascii ''```'')"
    and "\<not> endswith (strip s) (of_ascii ''```'')"
  shows "clean_response_text (fenced s) = clean_response_text s \<and>
         clean_response_text s = strip s \<and>
         loads (clean_response_text (fenced s)) = loads (clean_response_text s)"
proof -
  let ?B = "[96, 96, 96] :: ustring"
  let ?F = "[96, 96, 96, 106, 115, 111, 110] :: ustring"
  from assms have np: "\<not> prefix ?B (strip s)" and ns: "\<not> suffix ?B (strip s)"
    by (simp_all add: startswith_prefix endswith_suffix fence_codes)
  have "prefix ?B ?F" by simp
  with np have npf: "\<not> prefix ?F (strip s)"
    using prefix_order.trans by blast
  have plain: "clean_response_text s = strip s"
    using np npf ns
    by (simp add: clean_response_text_def Let_def startswith_prefix endswith_suffix
        fence_codes strip_strip)
  define w where "w = ?F @ s @ ?B"
  have w_strip: "strip w = w"
    unfolding w_def by (rule strip_keeps) (simp_all add: backtick_not_space)
  have w_prefix: "prefix ?F w"
    unfolding w_def by simp
  have w_drop: "drop 7 w = s @ ?B"
    unfolding w_def by simp
  have nps: "\<not> prefix ?B s"
    using np strip_keeps_fence_prefix by blast
  have "clean_response_text w = strip s"
  proof (cases "prefix ?B (s @ ?B)")
    case False
    moreover have "suffix ?B (s @ ?B)"
      by (simp add: suffix_def)
    ultimately show ?thesis
      by (simp add: clean_response_text_def Let_def startswith_prefix endswith_suffix
          fence_codes w_strip w_prefix w_drop)
  next
    case True
    then have "prefix ?B s \<or> (\<exists>us. ?B = s @ us \<and> prefix us ?B)"
      by (simp only: prefix_append)
    with nps obtain us where "?B = s @ us"
      by blast
    then have "prefix s ?B"
      by (metis prefixI)
    then have "s \<in> set (prefixes ?B)"
      by (simp only: in_set_prefixes)
    with nps have "s = [] \<or> s = [96] \<or> s = [96, 96]"
      by auto
    then show ?thesis
      unfolding w_def
      by (auto simp: clean_response_text_def Let_def startswith_def endswith_def
          fence_codes strip_def lstrip_def rstrip_def backtick_not_space)
  qed
  with plain show ?thesis by (simp add: fenced_def fence_codes w_def)
qed

text \<open>
  An output that carries a fence of its own shows why the restriction is needed. The
  handler removes one leading \<open>```json\<close>, one leading \<open>```\<close> and one trailing
  \<open>```\<close>: wrapped once more, the output \<open>```json{}```\<close> is cleaned to
  \<open>json{}```\<close> and the endpoint answers 500, while alone it is cleaned to \<open>{}\<close> and
  parsed.
\<close>

theorem fence_counterexample:
  "clean_response_text (fenced (of_ascii ''```json{}```'')) = of_ascii ''json{}```'' \<and>
   clean_response_text (of_ascii ''```json{}```'') = of_ascii ''{}'' \<and>
   snd (analyze_resume
          (sample_env (reader_giving [Inr (Some sample_resume)])
             (model_replying (fenced (of_ascii ''```json{}```''))))
          (sample_request (of_ascii ''application/pdf''))) =
     Inl (HTTPException 500 (of_ascii ''AI returned invalid JSON format.'')) \<and>
   snd (analyze_resume
          (sample_env (reader_giving [Inr (Some sample_resume)])
             (model_replying (of_ascii ''```json{}```'')))
          (sample_request (of_ascii ''application/pdf''))) = Inr (JDict [])"
  by (simp add: fenced_def clean_response_text_def analyze_resume_def read_and_extract_def
      call_and_parse_def extract_text_from_pdf_def sample_resume_def
      string_eval sample_eval)

text \<open>
  An output with blanks around the empty object satisfies both hypotheses.
\<close>

theorem fence_normalized_witness:
  "clean_response_text (fenced (of_ascii '' {}\<newline>'')) = of_ascii ''{}'' \<and>
   clean_response_text (of_ascii '' {}\<newline>'') = of_ascii ''{}'' \<and>
   loads_empty_object (clean_response_text (fenced (of_ascii '' {}\<newline>''))) = Inr (JDict []) \<and>
   loads_empty_object (clean_response_text (of_ascii '' {}\<newline>'')) = Inr (JDict [])"
proof -
  have s: "strip (of_ascii '' {}\<newline>'') = of_ascii ''{}''"
    by (simp add: of_ascii_def strip_def lstrip_def rstrip_def isspace_def)
  have a: "\<not> startswith (strip (of_ascii '' {}\<newline>'')) (of_ascii ''```'')"
    unfolding s by (simp add: of_ascii_def startswith_def)
  have b: "\<not> endswith (strip (of_ascii '' {}\<newline>'')) (of_ascii ''```'')"
    unfolding s by (simp add: of_ascii_def endswith_def)
  from fence_normalized [OF a b, where loads = loads_empty_object] show ?thesis
    unfolding s by (simp add: loads_empty_object_def)
qed

section \<open>The endpoint: error responses\<close>

text \<open>
  C6. A request whose file declares any content type other than
  \<open>application/pdf\<close> (or none) is answered 400 with the only-PDF message, and the
  handler has made no call by then: the upload is not read, no PDF is parsed, the model
  is not called.
\<close>

theorem wrong_content_type:
  assumes "resume_pdf_content_type req \<noteq> Some (of_ascii ''application/pdf'')"
  shows "analyze_resume env req =
     ([], Inl (HTTPException 400 (of_ascii
        ''Invalid file type. Only PDF files (application/pdf) are supported. DOC/DOCX files are not supported.'')))"
  using assms by (simp add: analyze_resume_def)

theorem wrong_content_type_witness:
  "analyze_resume
     (sample_env (reader_raising (OtherError (of_ascii ''EOF marker not found'')))
        (model_raising (OtherError (of_ascii ''503 UNAVAILABLE''))))
     (sample_request (of_ascii ''application/msword'')) =
   ([], Inl (HTTPException 400 (of_ascii
      ''Invalid file type. Only PDF files (application/pdf) are supported. DOC/DOCX files are not supported.'')))"
  by (rule wrong_content_type) (simp add: sample_request_def of_ascii_def)

text \<open>
  C1. The extractor raises \<open>HTTPException(400)\<close> on a file it cannot read, but the
  handler calls it inside \<open>try ... except Exception\<close> (lines 89 to 93), which catches
  that exception too: the endpoint answers 500, and the 400 only shows inside the
  detail.
\<close>

theorem unreadable_pdf_500:
  "analyze_resume
     (sample_env (reader_raising (OtherError (of_ascii ''EOF marker not found'')))
        (model_replying (of_ascii ''{}'')))
     (sample_request (of_ascii ''application/pdf'')) =
   ([UploadRead, PdfParse [0x25, 0x50, 0x44, 0x46]],
    Inl (HTTPException 500
      (of_ascii ''Failed to process PDF: 400: Error reading PDF: EOF marker not found'')))"
  by (simp add: analyze_resume_def read_and_extract_def extract_text_from_pdf_def
      str_nat.simps of_ascii_def sample_eval)

text \<open>
  The same holds for every failure of the extractor.
\<close>

lemma extraction_failure_500:
  assumes "resume_pdf_content_type req = Some (of_ascii ''application/pdf'')"
    and "resume_pdf_read req = Inr pdf_content"
    and "extract_text_from_pdf (PdfReader env) pdf_content = Inl e"
  shows "snd (analyze_resume env req) =
           Inl (HTTPException 500 (of_ascii ''Failed to process PDF: '' @ str_exn e))"
    and "\<exists>detail. e = HTTPException 400 detail"
  using assms
  by (auto simp: analyze_resume_def read_and_extract_def extract_text_from_pdf_def
      split: sum.splits)






lemma json_text_empty_object: "json_text (of_ascii ''{}'')"
proof -
  have "json_value (0x7B # [] @ [0x7D])"
    by (rule json_value_json_elements_json_members.intros(8)) simp
  then have "json_value (of_ascii ''{}'')"
    by (simp add: of_ascii_def)
  then have "of_ascii ''{}'' = [] @ of_ascii ''{}'' @ [] \<and> list_all json_ws [] \<and>
      json_value (of_ascii ''{}'') \<and> list_all json_ws []"
    by simp
  then show ?thesis
    unfolding json_text_def by blast
qed





text \<open>The same holds for every failure of the parser other than a \<open>JSONDecodeError\<close>.\<close>

lemma parser_failure_503:
  assumes "resume_pdf_content_type req = Some (of_ascii ''application/pdf'')"
    and "resume_pdf_read req = Inr pdf_content"
    and "extract_text_from_pdf (PdfReader env) pdf_content = Inr resume_text"
    and "generate_content env
           (build_prompt (json_dumps env) (JOBS_CONTEXT env) (company_name req)
              (job_description req) resume_text) = Inr (Some reply)"
    and "json_loads env (clean_response_text reply) = Inl e"
    and "\<forall>msg. e \<noteq> JSONDecodeError msg"
  shows "snd (analyze_resume env req) =
           Inl (HTTPException 503 (of_ascii ''AI Service Unavailable: '' @ str_exn e))"
  using assms
  by (cases e) (simp_all add: analyze_resume_def read_and_extract_def call_and_parse_def Let_def)




section \<open>Prompt builder: contents\<close>

lemma job_heading_ends:
  "prompt_job_heading =
     text_lines ['''', '''', ''    **Specific Job Description:**''] @ of_ascii ''    '' @
     of_ascii ''Company: ''"
  by (simp add: prompt_job_heading_def of_ascii_def)

lemma description_heading_starts:
  "prompt_description_heading = [0x0A] @ text_lines [''    Description:''] @ of_ascii ''    ''"
  by (simp add: prompt_description_heading_def text_lines_def of_ascii_def)

lemma annotation_markers:
  "sublist (of_ascii ''<<<'') prompt_annotation_instructions"
  "sublist (of_ascii ''~~~'') prompt_annotation_instructions"
  "sublist (of_ascii ''+++'') prompt_annotation_instructions"
  by code_simp+

lemma sublist_instructions:
  "sublist m prompt_annotation_instructions \<Longrightarrow> sublist m prompt_instructions"
  unfolding prompt_instructions_def
  by (metis sublist_appendI sublist_order.order_trans)

text \<open>
  C7. The prompt contains the serialization of the first 50 job-context entries in
  their order, the job description and the resume text as they are, the line
  \<open>Company: Not Specified\<close> when no company name is given (the name itself when one is
  given), and it ends with the instructions, which contain the markers \<open><<<\<close>,
  \<open>~~~\<close> and \<open>+++\<close>.
\<close>

theorem prompt_contents:
  "(let prompt = build_prompt dumps context company job resume_text
    in sublist (dumps (take 50 context)) prompt \<and>
       sublist job prompt \<and>
       sublist resume_text prompt \<and>
       (company = None \<longrightarrow> sublist (of_ascii ''Company: Not Specified'' @ [0x0A]) prompt) \<and>
       (\<forall>name. company = Some name \<and> name \<noteq> [] \<longrightarrow>
          sublist (of_ascii ''Company: '' @ name @ [0x0A]) prompt) \<and>
       suffix prompt_instructions prompt \<and>
       sublist (of_ascii ''<<<'') prompt_instructions \<and>
       sublist (of_ascii ''~~~'') prompt_instructions \<and>
       sublist (of_ascii ''+++'') prompt_instructions)"
proof -
  define prompt where "prompt = build_prompt dumps context company job resume_text"
  define shown where "shown =
    (case company of None \<Rightarrow> of_ascii ''Not Specified''
     | Some name \<Rightarrow> if name \<noteq> [] then name else of_ascii ''Not Specified'')"
  have p: "prompt = prompt_goal @ dumps (take 50 context) @ prompt_job_heading @ shown @
      prompt_description_heading @ job @ prompt_resume_heading @ resume_text @
      prompt_instructions"
    by (simp add: prompt_def shown_def build_prompt_def Let_def)
  have 1: "sublist (dumps (take 50 context)) prompt"
    unfolding p by (rule sublist_appendI)
  have "prompt = (prompt_goal @ dumps (take 50 context) @ prompt_job_heading @ shown @
      prompt_description_heading) @ job @ (prompt_resume_heading @ resume_text @
      prompt_instructions)"
    by (simp add: p)
  then have 2: "sublist job prompt"
    by (metis sublist_appendI)
  have "prompt = (prompt_goal @ dumps (take 50 context) @ prompt_job_heading @ shown @
      prompt_description_heading @ job @ prompt_resume_heading) @ resume_text @
      prompt_instructions"
    by (simp add: p)
  then have 3: "sublist resume_text prompt"
    by (metis sublist_appendI)
  have "prompt = (prompt_goal @ dumps (take 50 context) @
        text_lines ['''', '''', ''    **Specific Job Description:**''] @ of_ascii ''    '') @
      (of_ascii ''Company: '' @ shown @ [0x0A]) @
      (text_lines [''    Description:''] @ of_ascii ''    '' @ job @ prompt_resume_heading @
        resume_text @ prompt_instructions)"
    by (simp add: p job_heading_ends description_heading_starts)
  then have c: "sublist (of_ascii ''Company: '' @ shown @ [0x0A]) prompt"
    by (metis sublist_appendI)
  have 4: "sublist (of_ascii ''Company: Not Specified'' @ [0x0A]) prompt" if "company = None"
  proof -
    have "of_ascii ''Company: '' @ shown @ [0x0A] = of_ascii ''Company: Not Specified'' @ [0x0A]"
      using that by (simp add: shown_def of_ascii_def)
    with c show ?thesis by simp
  qed
  have 5: "sublist (of_ascii ''Company: '' @ name @ [0x0A]) prompt"
    if "company = Some name \<and> name \<noteq> []" for name
    using that c by (simp add: shown_def)
  have "prompt = (prompt_goal @ dumps (take 50 context) @ prompt_job_heading @ shown @
      prompt_description_heading @ job @ prompt_resume_heading @ resume_text) @
      prompt_instructions"
    by (simp add: p)
  then have 6: "suffix prompt_instructions prompt"
    by (metis suffixI)
  from 1 2 3 4 5 6 annotation_markers [THEN sublist_instructions]
  show ?thesis
    unfolding prompt_def [symmetric] Let_def by blast
qed

theorem prompt_contents_witness:
  "sublist (dumps_empty (take 50 [])) (build_prompt dumps_empty [] None sample_job (sample_resume @ [0x0A])) \<and>
   sublist sample_job (build_prompt dumps_empty [] None sample_job (sample_resume @ [0x0A])) \<and>
   sublist (sample_resume @ [0x0A]) (build_prompt dumps_empty [] None sample_job (sample_resume @ [0x0A])) \<and>
   sublist (of_ascii ''Company: Not Specified'' @ [0x0A])
     (build_prompt dumps_empty [] None sample_job (sample_resume @ [0x0A]))"
  using prompt_contents [of dumps_empty "[]" None sample_job "sample_resume @ [0x0A]"]
  by (simp add: Let_def)

section \<open>The conversion script: skills\<close>

lemma skills_loop_acc:
  "skills_loop lines acc =
     acc @ map remove_bullet (filter (\<lambda>fragment. 3 < length fragment) (map strip lines))"
  by (induction lines arbitrary: acc) (simp_all add: Let_def)

lemma re_split_not_Nil: "re_split delim s \<noteq> []"
  by (induction delim s rule: re_split.induct) (auto split: list.splits)

lemma re_split_pieces:
  "piece \<in> set (re_split delim s) \<Longrightarrow> c \<in> set piece \<Longrightarrow> \<not> delim c"
proof (induction delim s arbitrary: piece rule: re_split.induct)
  case (1 delim)
  then show ?case by simp
next
  case (2 delim x xs)
  show ?case
  proof (cases "delim x")
    case True
    with 2 show ?thesis by auto
  next
    case False
    obtain p ps where ps: "re_split delim xs = p # ps"
      using re_split_not_Nil by (cases "re_split delim xs") auto
    with False "2.prems" have "piece = x # p \<or> piece \<in> set ps"
      by auto
    then show ?thesis
    proof
      assume "piece = x # p"
      with "2.prems" have "c = x \<or> c \<in> set p" by auto
      with False "2.IH"(2) [of p] ps show ?thesis by auto
    next
      assume "piece \<in> set ps"
      with False "2.IH"(2) [of piece] ps "2.prems" show ?thesis by auto
    qed
  qed
qed

lemma filter_dropWhile_not:
  "filter (\<lambda>c. \<not> P c) (dropWhile P xs) = filter (\<lambda>c. \<not> P c) xs"
  by (induction xs) auto

lemma concat_re_split:
  "concat (re_split delim s) = filter (\<lambda>c. \<not> delim c) s"
proof (induction delim s rule: re_split.induct)
  case (1 delim)
  then show ?case by simp
next
  case (2 delim x xs)
  show ?case
  proof (cases "delim x")
    case True
    with 2 show ?thesis by (simp add: filter_dropWhile_not)
  next
    case False
    obtain p ps where ps: "re_split delim xs = p # ps"
      using re_split_not_Nil by (cases "re_split delim xs") auto
    with False 2 show ?thesis by auto
  qed
qed

text \<open>
  C9. The empty description gives \<open>N/A\<close>. Any other description is split at the
  runs of newline, carriage return and bullet characters (no piece contains such a
  character, and the pieces together are the description without them); the pieces are
  trimmed, those of trimmed length over 3 are kept, each loses one leading bullet mark
  with the blanks after it, and the first 10 of them at most are joined by a comma and a
  space.
\<close>

theorem skills_heuristic:
  "extract_skills_heuristic [] = of_ascii ''N/A'' \<and>
   (description \<noteq> [] \<longrightarrow>
      extract_skills_heuristic description =
        join (of_ascii '', '')
          (take 10 (map remove_bullet
             (filter (\<lambda>fragment. 3 < length fragment)
                (map strip (re_split re_delimiter description)))))) \<and>
   (\<forall>piece\<in>set (re_split re_delimiter description). \<forall>c\<in>set piece. \<not> re_delimiter c) \<and>
   concat (re_split re_delimiter description) = filter (\<lambda>c. \<not> re_delimiter c) description"
  using re_split_pieces [of _ re_delimiter description]
  by (simp add: extract_skills_heuristic_def Let_def skills_loop_acc concat_re_split)

theorem skills_heuristic_witness:
  "extract_skills_heuristic
     (of_ascii ''- Python dev\<newline>ab\<newline>* SQL skills'' @ [0x2022] @ of_ascii '' Docker use '') =
   of_ascii ''Python dev, SQL skills, Docker use''"
  using skills_heuristic
    [of "of_ascii ''- Python dev\<newline>ab\<newline>* SQL skills'' @ [0x2022] @ of_ascii '' Docker use ''"]
  by (simp add: of_ascii_def re_delimiter_def re_bullet_def strip_def lstrip_def rstrip_def
      isspace_def)

end
